theory Spec2Isabelle
  imports Main "HOL-Library.FSet"
begin

section \<open>The mock-data generator \<open>generator/create.py\<close>\<close>

text \<open>
  The generator draws every value from three outside sources: Python's \<open>random\<close>
  module, the \<open>Faker\<close> instance \<open>fake\<close>, and \<open>bson.ObjectId\<close>. The model makes them
  an explicit state, the \<open>world\<close>, which every drawing function takes and returns
  updated. A world holds the outputs the sources are going to give, as infinite tapes
  read at a position, so a theorem about all worlds is a theorem about all outcomes
  of the draws.

  Python floats are kept abstract: a type \<open>'f\<close> with the operations the code uses,
  passed as a record \<open>float_ops\<close>. What is proved holds for every interpretation of
  them, IEEE doubles included.
\<close>

subsection \<open>Floats\<close>

record 'f float_ops =
  lit :: "rat \<Rightarrow> 'f"                   \<comment> \<open>a numeric literal or an int, as a float\<close>
  fadd :: "'f \<Rightarrow> 'f \<Rightarrow> 'f"
  fsub :: "'f \<Rightarrow> 'f \<Rightarrow> 'f"
  fmul :: "'f \<Rightarrow> 'f \<Rightarrow> 'f"
  round_nd :: "'f \<Rightarrow> nat \<Rightarrow> 'f"        \<comment> \<open>\<open>round(x, n)\<close>\<close>
  fmt2 :: "'f \<Rightarrow> string"                \<comment> \<open>the format \<open>{x:.2f}\<close>\<close>

text \<open>\<open>sum(xs)\<close> adds from the left, starting at the int \<open>0\<close>.\<close>

definition py_sum :: "'f float_ops \<Rightarrow> 'f list \<Rightarrow> 'f" where
  "py_sum ops xs = foldl (fadd ops) (lit ops 0) xs"

subsection \<open>The sources of values\<close>

datatype error = IndexError

record 'f world =
  rand_ints :: "nat \<Rightarrow> nat"     \<comment> \<open>what the \<open>random\<close> module yields at each draw, as a raw integer\<close>
  rand_units :: "nat \<Rightarrow> 'f"     \<comment> \<open>and as a float of \<open>random.random()\<close>\<close>
  rand_pos :: nat                \<comment> \<open>draws of \<open>random\<close> made so far\<close>
  fake_strs :: "nat \<Rightarrow> string"   \<comment> \<open>what \<open>fake\<close> yields at each draw, as a text\<close>
  fake_times :: "nat \<Rightarrow> int"     \<comment> \<open>and as a datetime, in microseconds\<close>
  fake_pos :: nat                \<comment> \<open>draws of \<open>fake\<close> made so far\<close>
  oid_count :: nat               \<comment> \<open>ObjectIds made so far\<close>

definition randbelow :: "nat \<Rightarrow> 'f world \<Rightarrow> nat \<times> 'f world" where
  "randbelow n w = (rand_ints w (rand_pos w) mod n, w\<lparr>rand_pos := rand_pos w + 1\<rparr>)"

text \<open>\<open>random.randint(lo, hi)\<close>, both ends included; every call of the program has \<open>lo \<le> hi\<close>.\<close>

definition randint :: "int \<Rightarrow> int \<Rightarrow> 'f world \<Rightarrow> int \<times> 'f world" where
  "randint lo hi w = (case randbelow (nat (hi - lo + 1)) w of (r, w') \<Rightarrow> (lo + int r, w'))"

text \<open>
  \<open>random.choice(xs)\<close> on a non-empty list. On an empty list Python raises
  \<open>IndexError\<close>: wherever the program passes a list that can be empty, the caller
  below tests it first and returns the error.
\<close>

definition choice :: "'a list \<Rightarrow> 'f world \<Rightarrow> 'a \<times> 'f world" where
  "choice xs w = (case randbelow (length xs) w of (i, w') \<Rightarrow> (xs ! i, w'))"

text \<open>\<open>random.uniform(a, b)\<close> is \<open>a + (b - a) * random()\<close>.\<close>

definition uniform :: "'f float_ops \<Rightarrow> rat \<Rightarrow> rat \<Rightarrow> 'f world \<Rightarrow> 'f \<times> 'f world" where
  "uniform ops a b w =
     (fadd ops (lit ops a) (fmul ops (fsub ops (lit ops b) (lit ops a)) (rand_units w (rand_pos w))),
      w\<lparr>rand_pos := rand_pos w + 1\<rparr>)"

text \<open>
  \<open>random.sample(population, k)\<close> with \<open>k \<le> len(population)\<close>, by the library's pool
  selection: a position of the pool is drawn, its element taken, and the last
  element of the pool moved into its place.
\<close>

fun sample_pool :: "'a list \<Rightarrow> nat \<Rightarrow> 'f world \<Rightarrow> 'a list \<times> 'f world" where
  "sample_pool pool 0 w = ([], w)"
| "sample_pool pool (Suc k) w =
     (case randbelow (length pool) w of (j, w1) \<Rightarrow>
        (case sample_pool (butlast (pool[j := last pool])) k w1 of (rest, w2) \<Rightarrow>
           (pool ! j # rest, w2)))"

definition sample :: "'a list \<Rightarrow> nat \<Rightarrow> 'f world \<Rightarrow> 'a list \<times> 'f world" where
  "sample population k w = sample_pool population k w"

text \<open>
  Every text-valued provider of \<open>fake\<close> (\<open>email\<close>, \<open>name\<close>, \<open>word\<close>, \<open>text\<close>,
  \<open>sentence\<close>, \<open>image_url\<close>, \<open>company\<close>, the address parts) is one draw of the text tape.
\<close>

definition fake_str :: "'f world \<Rightarrow> string \<times> 'f world" where
  "fake_str w = (fake_strs w (fake_pos w), w\<lparr>fake_pos := fake_pos w + 1\<rparr>)"

fun fake_words :: "nat \<Rightarrow> 'f world \<Rightarrow> string list \<times> 'f world" where
  "fake_words 0 w = ([], w)"
| "fake_words (Suc n) w =
     (case fake_str w of (x, w1) \<Rightarrow> (case fake_words n w1 of (xs, w2) \<Rightarrow> (x # xs, w2)))"

text \<open>
  \<open>fake.date_time_between(...)\<close>: a datetime, as its microseconds since the epoch.
  The records keep the datetime itself where the program keeps its \<open>isoformat()\<close>.
\<close>

definition fake_date_time :: "'f world \<Rightarrow> int \<times> 'f world" where
  "fake_date_time w = (fake_times w (fake_pos w), w\<lparr>fake_pos := fake_pos w + 1\<rparr>)"

definition timedelta_days :: "int \<Rightarrow> int" where
  "timedelta_days n = n * 86400000000"

text \<open>
  \<open>str(ObjectId())\<close>: a fresh identifier at every call, 24 hexadecimal characters,
  so never the empty string. The model names the identifier by its rank in the run.
\<close>

definition object_id :: "'f world \<Rightarrow> nat \<times> 'f world" where
  "object_id w = (oid_count w, w\<lparr>oid_count := oid_count w + 1\<rparr>)"

subsection \<open>Texts\<close>

definition digit_char :: "nat \<Rightarrow> char" where
  "digit_char d = ''0123456789'' ! d"

fun str_nat :: "nat \<Rightarrow> string" where
  "str_nat n = (if n < 10 then [digit_char n] else str_nat (n div 10) @ [digit_char (n mod 10)])"

declare str_nat.simps [simp del]

definition str_int :: "int \<Rightarrow> string" where
  "str_int i = (if i < 0 then CHR ''-'' # str_nat (nat (- i)) else str_nat (nat i))"

text \<open>
  \<open>lower\<close> and \<open>capitalize\<close> on the letters of ASCII, those of the words \<open>fake\<close>
  yields; every other character is left as it is.
\<close>

definition lower_char :: "char \<Rightarrow> char" where
  "lower_char c =
     (case map_of (zip ''ABCDEFGHIJKLMNOPQRSTUVWXYZ'' ''abcdefghijklmnopqrstuvwxyz'') c of
        Some l \<Rightarrow> l | None \<Rightarrow> c)"

definition upper_char :: "char \<Rightarrow> char" where
  "upper_char c =
     (case map_of (zip ''abcdefghijklmnopqrstuvwxyz'' ''ABCDEFGHIJKLMNOPQRSTUVWXYZ'') c of
        Some u \<Rightarrow> u | None \<Rightarrow> c)"

definition lower :: "string \<Rightarrow> string" where
  "lower s = map lower_char s"

definition capitalize :: "string \<Rightarrow> string" where
  "capitalize s = (case s of [] \<Rightarrow> [] | c # cs \<Rightarrow> upper_char c # map lower_char cs)"

text \<open>The characters the pattern \<open>[^a-z0-9-]\<close> leaves in place.\<close>

definition slug_char :: "char \<Rightarrow> bool" where
  "slug_char c \<longleftrightarrow> c \<in> set ''abcdefghijklmnopqrstuvwxyz0123456789-''"

definition create_slug :: "string \<Rightarrow> string" where
  "create_slug name =
     (let slug = map (\<lambda>c. if c = CHR '' '' then CHR ''-'' else c) (lower name)
      in filter slug_char slug)"

definition generate_order_number :: "'f world \<Rightarrow> string \<times> 'f world" where
  "generate_order_number w =
     (case randint 10000000 99999999 w of (n, w1) \<Rightarrow> (''ORD-'' @ str_int n, w1))"

definition generate_sku :: "'f world \<Rightarrow> string \<times> 'f world" where
  "generate_sku w =
     (case randint 1000 9999 w of (n, w1) \<Rightarrow>
        (case choice [''A'', ''B'', ''C''] w1 of (c, w2) \<Rightarrow>
           (''SKU-'' @ str_int n @ ''-'' @ c, w2)))"

subsection \<open>Registries and the retry loop\<close>

text \<open>
  A registry is a Python \<open>set\<close>, a finite set. \<open>generate_user\<close>, \<open>generate_product\<close>
  and \<open>generate_order\<close> each hold the same loop,
  \<^verbatim>\<open>x = gen(); while x in registry: x = gen()\<close>,
  with \<open>gen\<close> being \<open>fake.email\<close>, \<open>generate_sku\<close> and \<open>generate_order_number\<close>.
  \<open>retry_while_in\<close> is that \<open>while\<close>, entered with the first value drawn. Nothing bounds
  its iterations, so it is a partial function: \<open>None\<close> is the loop that never ends.
\<close>

partial_function (option) retry_while_in ::
  "('f world \<Rightarrow> string \<times> 'f world) \<Rightarrow> string \<Rightarrow> string fset \<Rightarrow> 'f world \<Rightarrow> (string \<times> 'f world) option"
where
  "retry_while_in gen x registry w =
     (if x |\<in>| registry
      then (case gen w of (x', w') \<Rightarrow> retry_while_in gen x' registry w')
      else Some (x, w))"

declare retry_while_in.simps [code]

definition draw_unique ::
  "('f world \<Rightarrow> string \<times> 'f world) \<Rightarrow> string fset \<Rightarrow> 'f world \<Rightarrow> (string \<times> 'f world) option"
where
  "draw_unique gen registry w = (case gen w of (x, w1) \<Rightarrow> retry_while_in gen x registry w1)"

text \<open>The values \<open>gen\<close> yields from a world on: the \<open>k\<close>-th one, and the world after \<open>k\<close> draws.\<close>

definition world_after :: "('f world \<Rightarrow> string \<times> 'f world) \<Rightarrow> nat \<Rightarrow> 'f world \<Rightarrow> 'f world" where
  "world_after gen k w = ((\<lambda>v. snd (gen v)) ^^ k) w"

definition drawn :: "('f world \<Rightarrow> string \<times> 'f world) \<Rightarrow> nat \<Rightarrow> 'f world \<Rightarrow> string" where
  "drawn gen k w = fst (gen (world_after gen k w))"

subsection \<open>Users\<close>

record profile =
  prof_age :: "int option"
  prof_country :: "string option"
  prof_interests :: "string list"
  prof_avatar :: "string option"

record user =
  u_id :: nat
  u_email :: string
  u_name :: string
  u_profile :: profile
  u_status :: string
  u_lastLogin :: "int option"
  u_createdAt :: int
  u_updatedAt :: int

definition countries :: "string list" where
  "countries = [''Vietnam'', ''Thailand'', ''Malaysia'', ''Singapore'', ''Indonesia'', ''Philippines'']"

text \<open>
  The entries of the dict literal are evaluated in the order they are written; in
  \<open>a if c else b\<close> the condition \<open>c\<close> is drawn first and only the chosen branch after it.
\<close>

definition generate_user :: "string fset \<Rightarrow> 'f world \<Rightarrow> (user \<times> string fset \<times> 'f world) option" where
  "generate_user email_set w =
     (case draw_unique fake_str email_set w of
        None \<Rightarrow> None
      | Some (email, w) \<Rightarrow>
          (let email_set = finsert email email_set;
               (uid, w) = object_id w;
               (name, w) = fake_str w;
               (c_age, w) = choice [True, False] w;
               (age, w) = (if c_age then (case randint 13 80 w of (a, w') \<Rightarrow> (Some a, w')) else (None, w));
               (country, w) = choice countries w;
               (c_int, w) = choice [True, False] w;
               (interests, w) =
                  (if c_int then (case randint 0 5 w of (nb, w') \<Rightarrow> fake_words (nat nb) w') else ([], w));
               (c_ava, w) = choice [True, False] w;
               (avatar, w) = (if c_ava then (case fake_str w of (a, w') \<Rightarrow> (Some a, w')) else (None, w));
               (status, w) = choice [''active'', ''inactive'', ''suspended''] w;
               (c_login, w) = choice [True, False] w;
               (lastLogin, w) =
                  (if c_login then (case fake_date_time w of (t, w') \<Rightarrow> (Some t, w')) else (None, w));
               (createdAt, w) = fake_date_time w;
               (updatedAt, w) = fake_date_time w
           in Some (\<lparr>u_id = uid, u_email = email, u_name = name,
                      u_profile = \<lparr>prof_age = age, prof_country = Some country,
                                    prof_interests = interests, prof_avatar = avatar\<rparr>,
                      u_status = status, u_lastLogin = lastLogin,
                      u_createdAt = createdAt, u_updatedAt = updatedAt\<rparr>,
                    email_set, w)))"

subsection \<open>Categories\<close>

record seo =
  seo_metaTitle :: string
  seo_metaDescription :: string
  seo_keywords :: "string list"

record category =
  c_id :: nat
  c_name :: string
  c_slug :: string
  c_description :: string
  c_parentId :: "nat option"
  c_image :: string
  c_sortOrder :: int
  c_featured :: bool
  c_status :: string
  c_seo :: seo
  c_createdAt :: int
  c_updatedAt :: int

text \<open>
  The slug loop, \<^verbatim>\<open>while slug in slug_set: slug = f"{slug}-{random.randint(1000, 9999)}"\<close>.
  Every round makes the slug longer, and the registry is finite, so the loop ends.
\<close>

function unique_slug :: "string \<Rightarrow> string fset \<Rightarrow> 'f world \<Rightarrow> string \<times> 'f world" where
  "unique_slug slug slug_set w =
     (if slug |\<in>| slug_set
      then (case randint 1000 9999 w of (n, w') \<Rightarrow> unique_slug (slug @ ''-'' @ str_int n) slug_set w')
      else (slug, w))"
  by pat_completeness auto
termination
proof (relation "measure (\<lambda>(slug, slug_set, w). card {s. s |\<in>| slug_set \<and> length slug \<le> length s})")
  show "wf (measure (\<lambda>(slug, slug_set, w). card {s. s |\<in>| slug_set \<and> length slug \<le> length s}))"
    by simp
next
  fix slug :: string and slug_set :: "string fset" and w :: "'f world" and x :: "int \<times> 'f world"
    and n :: int and w' :: "'f world"
  assume mem: "slug |\<in>| slug_set"
  let ?slug' = "slug @ ''-'' @ str_int n"
  let ?A = "{s. s |\<in>| slug_set \<and> length slug \<le> length s}"
  let ?B = "{s. s |\<in>| slug_set \<and> length ?slug' \<le> length s}"
  have fin: "finite ?A"
    by (rule finite_subset [of _ "fset slug_set"]) auto
  have "?B \<subseteq> ?A" by auto
  moreover have "slug \<in> ?A" using mem by simp
  moreover have "slug \<notin> ?B" by simp
  ultimately have "?B \<subset> ?A" by blast
  then have "card ?B < card ?A"
    using fin by (rule psubset_card_mono [rotated])
  then show "((?slug', slug_set, w'), (slug, slug_set, w))
      \<in> measure (\<lambda>(slug, slug_set, w). card {s. s |\<in>| slug_set \<and> length slug \<le> length s})"
    by simp
qed

text \<open>
  \<open>parent_id\<close> is \<open>None\<close> or an identifier of \<open>ObjectId\<close>, a non-empty text, so
  \<open>parent_id if parent_id else None\<close> is \<open>parent_id\<close>. The parameters \<open>level\<close> and
  \<open>max_levels\<close> are not read by the body.
\<close>

definition generate_category ::
  "string fset \<Rightarrow> nat option \<Rightarrow> 'f world \<Rightarrow> category \<times> string fset \<times> 'f world" where
  "generate_category slug_set parent_id w =
     (let (w1, w) = fake_str w;
          (w2, w) = fake_str w;
          name = capitalize w1 @ '' '' @ capitalize w2;
          slug = create_slug name;
          (slug, w) = unique_slug slug slug_set w;
          slug_set = finsert slug slug_set;
          (cid, w) = object_id w;
          (description, w) = fake_str w;
          (image, w) = fake_str w;
          (sortOrder, w) = randint 0 100 w;
          (featured, w) = choice [True, False] w;
          (status, w) = choice [''active'', ''inactive''] w;
          (sentence, w) = fake_str w;
          (metaDescription, w) = fake_str w;
          (nb, w) = randint 3 8 w;
          (keywords, w) = fake_words (nat nb) w;
          (createdAt, w) = fake_date_time w;
          (updatedAt, w) = fake_date_time w
      in (\<lparr>c_id = cid, c_name = name, c_slug = slug, c_description = description,
            c_parentId = parent_id, c_image = image, c_sortOrder = sortOrder,
            c_featured = featured, c_status = status,
            c_seo = \<lparr>seo_metaTitle = take 60 sentence, seo_metaDescription = metaDescription,
                      seo_keywords = keywords\<rparr>,
            c_createdAt = createdAt, c_updatedAt = updatedAt\<rparr>,
          slug_set, w))"

subsection \<open>Products\<close>

record inventory =
  inv_quantity :: int
  inv_reserved :: int
  inv_lowStockThreshold :: int

record specifications =
  spec_weight :: string
  spec_color :: string
  spec_brand :: string

record 'f ratings =
  rat_average :: 'f
  rat_count :: int

record 'f product =
  p_id :: nat
  p_sku :: string
  p_name :: string
  p_description :: string
  p_category :: string
  p_subcategory :: "string option"
  p_price :: 'f
  p_currency :: string
  p_inventory :: inventory
  p_images :: "string list"
  p_tags :: "string list"
  p_specifications :: specifications
  p_ratings :: "'f ratings"
  p_status :: string
  p_createdAt :: int
  p_updatedAt :: int

definition generate_product ::
  "'f float_ops \<Rightarrow> string fset \<Rightarrow> 'f world \<Rightarrow> ('f product \<times> string fset \<times> 'f world) option" where
  "generate_product ops sku_set w =
     (case draw_unique generate_sku sku_set w of
        None \<Rightarrow> None
      | Some (sku, w) \<Rightarrow>
          (let sku_set = finsert sku sku_set;
               (pid, w) = object_id w;
               (w1, w) = fake_str w;
               (w2, w) = fake_str w;
               (description, w) = fake_str w;
               (cat, w) = choice [''electronics'', ''clothing'', ''books'', ''home'', ''sports'',
                                  ''beauty'', ''toys'', ''automotive''] w;
               (c_sub, w) = choice [True, False] w;
               (subcategory, w) =
                  (if c_sub then (case fake_str w of (x, w') \<Rightarrow> (Some (capitalize x), w')) else (None, w));
               (price, w) = uniform ops 10 500 w;
               (currency, w) = choice [''USD'', ''VND'', ''EUR'', ''GBP''] w;
               (quantity, w) = randint 0 1000 w;
               (reserved, w) = randint 0 50 w;
               (threshold, w) = randint 5 20 w;
               (n_img, w) = randint 1 5 w;
               (images, w) = fake_words (nat n_img) w;
               (n_tag, w) = randint 0 10 w;
               (tags, w) = fake_words (nat n_tag) w;
               (weight, w) = uniform ops (1 / 10) 10 w;
               (color, w) = choice [''Red'', ''Blue'', ''Green'', ''Black'', ''White''] w;
               (brand, w) = fake_str w;
               (c_avg, w) = choice [True, False] w;
               (average, w) =
                  (if c_avg then (case uniform ops 0 5 w of (x, w') \<Rightarrow> (round_nd ops x 1, w'))
                   else (lit ops 0, w));
               (count, w) = randint 0 100 w;
               (status, w) = choice [''active'', ''inactive'', ''discontinued'', ''draft''] w;
               (createdAt, w) = fake_date_time w;
               (updatedAt, w) = fake_date_time w
           in Some (\<lparr>p_id = pid, p_sku = sku,
                      p_name = capitalize w1 @ '' '' @ capitalize w2 @ '' Product'',
                      p_description = description, p_category = cat, p_subcategory = subcategory,
                      p_price = round_nd ops price 2, p_currency = currency,
                      p_inventory = \<lparr>inv_quantity = quantity, inv_reserved = reserved,
                                      inv_lowStockThreshold = threshold\<rparr>,
                      p_images = images, p_tags = tags,
                      p_specifications = \<lparr>spec_weight = fmt2 ops weight @ '' kg'', spec_color = color,
                                           spec_brand = brand\<rparr>,
                      p_ratings = \<lparr>rat_average = average, rat_count = count\<rparr>,
                      p_status = status, p_createdAt = createdAt, p_updatedAt = updatedAt\<rparr>,
                    sku_set, w)))"

subsection \<open>Product-category links\<close>

record product_category =
  pc_id :: nat
  pc_productId :: nat
  pc_categoryId :: nat
  pc_isPrimary :: bool
  pc_sortOrder :: int
  pc_createdAt :: int

definition generate_product_category :: "nat \<Rightarrow> nat \<Rightarrow> 'f world \<Rightarrow> product_category \<times> 'f world" where
  "generate_product_category product_id category_id w =
     (let (pcid, w) = object_id w;
          (isPrimary, w) = choice [True, False] w;
          (sortOrder, w) = randint 0 100 w;
          (createdAt, w) = fake_date_time w
      in (\<lparr>pc_id = pcid, pc_productId = product_id, pc_categoryId = category_id,
            pc_isPrimary = isPrimary, pc_sortOrder = sortOrder, pc_createdAt = createdAt\<rparr>, w))"

subsection \<open>Orders\<close>

record 'f order_item =
  oi_productId :: nat
  oi_sku :: string
  oi_name :: string
  oi_price :: 'f
  oi_quantity :: int
  oi_subtotal :: 'f

record address =
  addr_fullName :: string
  addr_address :: string
  addr_city :: string
  addr_state :: string
  addr_zipCode :: string
  addr_country :: string

record 'f payment =
  pay_method :: string
  pay_status :: string
  pay_transactionId :: string
  pay_amount :: 'f

record 'f order =
  o_id :: nat
  o_orderNumber :: string
  o_customerId :: nat
  o_items :: "'f order_item list"
  o_shippingAddress :: address
  o_billingAddress :: address
  o_payment :: "'f payment"
  o_subtotal :: 'f
  o_tax :: 'f
  o_shipping :: 'f
  o_discount :: 'f
  o_totalAmount :: 'f
  o_currency :: string
  o_status :: string
  o_orderDate :: int
  o_shippedDate :: "int option"
  o_deliveredDate :: "int option"
  o_notes :: string
  o_createdAt :: int
  o_updatedAt :: int

definition generate_address :: "'f world \<Rightarrow> address \<times> 'f world" where
  "generate_address w =
     (let (fullName, w) = fake_str w;
          (street, w) = fake_str w;
          (city, w) = fake_str w;
          (state, w) = fake_str w;
          (zipCode, w) = fake_str w;
          (country, w) = choice countries w
      in (\<lparr>addr_fullName = fullName, addr_address = street, addr_city = city,
            addr_state = state, addr_zipCode = zipCode, addr_country = country\<rparr>, w))"

text \<open>
  \<open>product.get("price", round(random.uniform(10, 500), 2))\<close>: the default is an
  argument, so it is drawn at every call; a product made by \<open>generate_product\<close> has
  its price, which is the value returned.
\<close>

definition generate_order_item :: "'f float_ops \<Rightarrow> 'f product \<Rightarrow> 'f world \<Rightarrow> 'f order_item \<times> 'f world" where
  "generate_order_item ops product w =
     (let (quantity, w) = randint 1 5 w;
          (dflt, w) = uniform ops 10 500 w;
          price = p_price product
      in (\<lparr>oi_productId = p_id product, oi_sku = p_sku product, oi_name = p_name product,
            oi_price = price, oi_quantity = quantity,
            oi_subtotal = round_nd ops (fmul ops price (lit ops (of_int quantity))) 2\<rparr>, w))"

fun generate_order_items ::
  "'f float_ops \<Rightarrow> 'f product list \<Rightarrow> 'f world \<Rightarrow> 'f order_item list \<times> 'f world" where
  "generate_order_items ops [] w = ([], w)"
| "generate_order_items ops (product # rest) w =
     (case generate_order_item ops product w of (item, w1) \<Rightarrow>
        (case generate_order_items ops rest w1 of (items, w2) \<Rightarrow> (item # items, w2)))"

definition order_statuses :: "string list" where
  "order_statuses = [''pending'', ''confirmed'', ''processing'', ''shipped'', ''delivered'',
                     ''cancelled'', ''refunded'']"

text \<open>
  \<open>random.choice(customer_ids)\<close> raises \<open>IndexError\<close> on an empty list; it is reached
  once the order number is found and the amounts are computed.
\<close>

definition generate_order ::
  "'f float_ops \<Rightarrow> nat list \<Rightarrow> 'f product list \<Rightarrow> string fset \<Rightarrow> 'f world
     \<Rightarrow> (error + 'f order \<times> string fset \<times> 'f world) option" where
  "generate_order ops customer_ids products order_number_set w =
     (case draw_unique generate_order_number order_number_set w of
        None \<Rightarrow> None
      | Some (order_number, w) \<Rightarrow>
          (let order_number_set = finsert order_number order_number_set;
               (num_items, w) = randint 1 5 w;
               (selected_products, w) = sample products (min (nat num_items) (length products)) w;
               (items, w) = generate_order_items ops selected_products w;
               subtotal = py_sum ops (map oi_subtotal items);
               (u_tax, w) = uniform ops 0 (1 / 10) w;
               tax = round_nd ops (fmul ops subtotal u_tax) 2;
               (u_ship, w) = uniform ops 0 50 w;
               shipping = round_nd ops u_ship 2;
               (u_disc, w) = uniform ops 0 (2 / 10) w;
               discount = round_nd ops (fmul ops subtotal u_disc) 2;
               total_amount =
                 round_nd ops (fsub ops (fadd ops (fadd ops subtotal tax) shipping) discount) 2;
               (order_date, w) = fake_date_time w;
               (status, w) = choice order_statuses w;
               (oid, w) = object_id w
           in if customer_ids = [] then Some (Inl IndexError)
              else
                (let (customerId, w) = choice customer_ids w;
                     (shippingAddress, w) = generate_address w;
                     (billingAddress, w) = generate_address w;
                     (method, w) = choice [''credit_card'', ''debit_card'', ''paypal'', ''bank_transfer'',
                                           ''cash_on_delivery''] w;
                     (pstatus, w) = choice [''pending'', ''completed'', ''failed'', ''refunded''] w;
                     (txn, w) = randint 1000 9999 w;
                     (currency, w) = choice [''USD'', ''VND'', ''EUR'', ''GBP''] w;
                     (shippedDate, w) =
                        (if status \<in> set [''shipped'', ''delivered'']
                         then (case randint 1 5 w of (d, w') \<Rightarrow> (Some (order_date + timedelta_days d), w'))
                         else (None, w));
                     (deliveredDate, w) =
                        (if status = ''delivered''
                         then (case randint 5 10 w of (d, w') \<Rightarrow> (Some (order_date + timedelta_days d), w'))
                         else (None, w));
                     (c_notes, w) = choice [True, False] w;
                     (notes, w) =
                        (if c_notes then (case fake_str w of (x, w') \<Rightarrow> (take 200 x, w')) else ([], w))
                 in Some (Inr (\<lparr>o_id = oid, o_orderNumber = order_number, o_customerId = customerId,
                                 o_items = items, o_shippingAddress = shippingAddress,
                                 o_billingAddress = billingAddress,
                                 o_payment = \<lparr>pay_method = method, pay_status = pstatus,
                                               pay_transactionId = ''TXN-'' @ str_int txn,
                                               pay_amount = total_amount\<rparr>,
                                 o_subtotal = subtotal, o_tax = tax, o_shipping = shipping,
                                 o_discount = discount, o_totalAmount = total_amount,
                                 o_currency = currency, o_status = status, o_orderDate = order_date,
                                 o_shippedDate = shippedDate, o_deliveredDate = deliveredDate,
                                 o_notes = notes, o_createdAt = order_date, o_updatedAt = order_date\<rparr>,
                               order_number_set, w)))))"

subsection \<open>Product reviews\<close>

record helpful =
  help_yes :: int
  help_no :: int

record review =
  r_id :: nat
  r_productId :: nat
  r_userId :: nat
  r_rating :: int
  r_title :: string
  r_content :: string
  r_verified :: bool
  r_helpful :: helpful
  r_status :: string
  r_images :: "string list"
  r_createdAt :: int
  r_updatedAt :: int

text \<open>
  \<open>order_products\<close> is a dict from a customer to the list of the products ordered;
  \<open>order_products.get(user_id, [])\<close> is the list, or the empty list for a missing key.
  The function returns \<open>None\<close> for a pair already in the registry.
\<close>

definition generate_product_review ::
  "nat \<Rightarrow> nat \<Rightarrow> (nat \<rightharpoonup> nat list) \<Rightarrow> (nat \<times> nat) fset \<Rightarrow> 'f world
     \<Rightarrow> review option \<times> (nat \<times> nat) fset \<times> 'f world" where
  "generate_product_review product_id user_id order_products product_user_pairs w =
     (if (product_id, user_id) |\<in>| product_user_pairs then (None, product_user_pairs, w)
      else
        (let product_user_pairs = finsert (product_id, user_id) product_user_pairs;
             verified = (product_id \<in> set (case order_products user_id of None \<Rightarrow> [] | Some l \<Rightarrow> l));
             (rid, w) = object_id w;
             (rating, w) = randint 1 5 w;
             (title, w) = fake_str w;
             (content, w) = fake_str w;
             (yes, w) = randint 0 50 w;
             (no, w) = randint 0 20 w;
             (status, w) = choice [''pending'', ''approved'', ''rejected'', ''spam''] w;
             (n_img, w) = randint 0 3 w;
             (images, w) = fake_words (nat n_img) w;
             (createdAt, w) = fake_date_time w;
             (updatedAt, w) = fake_date_time w
         in (Some \<lparr>r_id = rid, r_productId = product_id, r_userId = user_id, r_rating = rating,
                    r_title = take 100 title, r_content = content, r_verified = verified,
                    r_helpful = \<lparr>help_yes = yes, help_no = no\<rparr>, r_status = status,
                    r_images = images, r_createdAt = createdAt, r_updatedAt = updatedAt\<rparr>,
             product_user_pairs, w)))"

subsection \<open>The main program\<close>

text \<open>
  The main program makes the six collections one after the other. Its counts are
  literals (\<open>10000\<close> records of each kind, \<open>100\<close> root categories); the model takes them
  from a \<open>config\<close>, and \<open>main\<close> is the run at the literals. Writing the collections to
  their files (\<open>save_to_json\<close>) changes none of them and is left out.
\<close>

record config =
  n_users :: nat
  n_categories :: nat
  n_roots :: nat
  n_products :: nat
  n_orders :: nat
  n_reviews :: nat

text \<open>\<open>[generate_user(email_set) for _ in range(n)]\<close>\<close>

fun generate_users :: "nat \<Rightarrow> string fset \<Rightarrow> 'f world \<Rightarrow> (user list \<times> string fset \<times> 'f world) option" where
  "generate_users 0 email_set w = Some ([], email_set, w)"
| "generate_users (Suc n) email_set w =
     (case generate_user email_set w of
        None \<Rightarrow> None
      | Some (u, email_set1, w1) \<Rightarrow>
          (case generate_users n email_set1 w1 of
             None \<Rightarrow> None
           | Some (us, email_set2, w2) \<Rightarrow> Some (u # us, email_set2, w2)))"

text \<open>The first loop of the category stage: how many categories each level gets.\<close>

fun count_levels :: "int list \<Rightarrow> int \<Rightarrow> int \<Rightarrow> (int \<Rightarrow> int) \<Rightarrow> 'f world \<Rightarrow> (int \<Rightarrow> int) \<times> 'f world" where
  "count_levels [] max_levels remaining level_counts w = (level_counts, w)"
| "count_levels (level # rest) max_levels remaining level_counts w =
     (case randint 50 200 w of (r, w1) \<Rightarrow>
        (let c = min (remaining div (max_levels - level)) r
         in count_levels rest max_levels (remaining - c) (level_counts(level := c)) w1))"

text \<open>\<open>[generate_category(slug_set) for _ in range(n)]\<close>\<close>

fun generate_roots :: "nat \<Rightarrow> string fset \<Rightarrow> 'f world \<Rightarrow> category list \<times> string fset \<times> 'f world" where
  "generate_roots 0 slug_set w = ([], slug_set, w)"
| "generate_roots (Suc n) slug_set w =
     (case generate_category slug_set None w of (c, slug_set1, w1) \<Rightarrow>
        (case generate_roots n slug_set1 w1 of (cs, slug_set2, w2) \<Rightarrow> (c # cs, slug_set2, w2)))"

text \<open>
  \<open>[generate_category(slug_set, parent_id=random.choice(parent_ids), level=level)
     for _ in range(n)]\<close>, with \<open>parent_ids\<close> not empty.
\<close>

fun generate_level ::
  "nat \<Rightarrow> nat list \<Rightarrow> string fset \<Rightarrow> 'f world \<Rightarrow> category list \<times> string fset \<times> 'f world" where
  "generate_level 0 parent_ids slug_set w = ([], slug_set, w)"
| "generate_level (Suc n) parent_ids slug_set w =
     (case choice parent_ids w of (parent_id, w0) \<Rightarrow>
        (case generate_category slug_set (Some parent_id) w0 of (c, slug_set1, w1) \<Rightarrow>
           (case generate_level n parent_ids slug_set1 w1 of (cs, slug_set2, w2) \<Rightarrow>
              (c # cs, slug_set2, w2))))"

text \<open>The second loop: the levels below the roots; it stops at a level with no parent to choose.\<close>

fun category_levels ::
  "int list \<Rightarrow> (int \<Rightarrow> int) \<Rightarrow> category list \<Rightarrow> string fset \<Rightarrow> 'f world
     \<Rightarrow> category list \<times> string fset \<times> 'f world" where
  "category_levels [] level_counts categories slug_set w = (categories, slug_set, w)"
| "category_levels (level # rest) level_counts categories slug_set w =
     (let parent_ids = (if level = 1 then map c_id (filter (\<lambda>cat. c_parentId cat = None) categories)
                        else map c_id categories)
      in if parent_ids = [] then (categories, slug_set, w)
         else
           (case generate_level (nat (level_counts level)) parent_ids slug_set w of
              (level_categories, slug_set1, w1) \<Rightarrow>
                category_levels rest level_counts (categories @ level_categories) slug_set1 w1))"

definition generate_categories :: "nat \<Rightarrow> nat \<Rightarrow> 'f world \<Rightarrow> category list \<times> 'f world" where
  "generate_categories total_count root_count w =
     (let slug_set = {||};
          max_levels = 3;
          level_counts = (\<lambda>_. 0)(0 := int root_count);
          remaining = int total_count - level_counts 0;
          (level_counts, w) = count_levels [1 .. max_levels - 1] max_levels remaining level_counts w;
          (categories, slug_set, w) = generate_roots (nat (level_counts 0)) slug_set w;
          (categories, slug_set, w) = category_levels [1 .. max_levels - 1] level_counts categories slug_set w;
          (categories, slug_set, w) =
             (if length categories < total_count
              then (case generate_roots (total_count - length categories) slug_set w of
                      (additional, slug_set1, w1) \<Rightarrow> (categories @ additional, slug_set1, w1))
              else (categories, slug_set, w))
      in (categories, w))"

text \<open>\<open>[generate_product(sku_set) for _ in range(n)]\<close>\<close>

fun generate_products ::
  "'f float_ops \<Rightarrow> nat \<Rightarrow> string fset \<Rightarrow> 'f world \<Rightarrow> ('f product list \<times> string fset \<times> 'f world) option" where
  "generate_products ops 0 sku_set w = Some ([], sku_set, w)"
| "generate_products ops (Suc n) sku_set w =
     (case generate_product ops sku_set w of
        None \<Rightarrow> None
      | Some (p, sku_set1, w1) \<Rightarrow>
          (case generate_products ops n sku_set1 w1 of
             None \<Rightarrow> None
           | Some (ps, sku_set2, w2) \<Rightarrow> Some (p # ps, sku_set2, w2)))"

text \<open>
  The links of one product (the inner \<open>for\<close>), and of all products (the outer one).
  \<open>not is_primary_set and random.choice([True, False])\<close> draws the coin only while no
  link of the product has been accepted as primary.
\<close>

fun link_selected ::
  "nat \<Rightarrow> nat list \<Rightarrow> bool \<Rightarrow> (nat \<times> nat) fset \<Rightarrow> product_category list \<Rightarrow> 'f world
     \<Rightarrow> (nat \<times> nat) fset \<times> product_category list \<times> 'f world" where
  "link_selected product_id [] is_primary_set pairs product_categories w = (pairs, product_categories, w)"
| "link_selected product_id (category_id # rest) is_primary_set pairs product_categories w =
     (if (product_id, category_id) |\<notin>| pairs
      then
        (case generate_product_category product_id category_id w of (product_category, w1) \<Rightarrow>
           (let pairs1 = finsert (product_id, category_id) pairs;
                (accept, w2) = (if \<not> is_primary_set then choice [True, False] w1 else (False, w1));
                product_category1 = (if accept then product_category\<lparr>pc_isPrimary := True\<rparr>
                                     else product_category);
                is_primary_set1 = (if accept then True else is_primary_set)
            in link_selected product_id rest is_primary_set1 pairs1
                 (product_categories @ [product_category1]) w2))
      else link_selected product_id rest is_primary_set pairs product_categories w)"

fun link_products ::
  "nat list \<Rightarrow> nat list \<Rightarrow> (nat \<times> nat) fset \<Rightarrow> product_category list \<Rightarrow> 'f world
     \<Rightarrow> (nat \<times> nat) fset \<times> product_category list \<times> 'f world" where
  "link_products [] category_ids pairs product_categories w = (pairs, product_categories, w)"
| "link_products (product_id # rest) category_ids pairs product_categories w =
     (case randint 1 3 w of (num_categories, w1) \<Rightarrow>
        (case sample category_ids (min (nat num_categories) (length category_ids)) w1 of
           (selected_categories, w2) \<Rightarrow>
             (case link_selected product_id selected_categories False pairs product_categories w2 of
                (pairs1, product_categories1, w3) \<Rightarrow>
                  link_products rest category_ids pairs1 product_categories1 w3)))"

text \<open>\<open>[generate_order(user_ids, products, order_number_set) for _ in range(n)]\<close>\<close>

fun generate_orders ::
  "'f float_ops \<Rightarrow> nat \<Rightarrow> nat list \<Rightarrow> 'f product list \<Rightarrow> string fset \<Rightarrow> 'f world
     \<Rightarrow> (error + 'f order list \<times> string fset \<times> 'f world) option" where
  "generate_orders ops 0 customer_ids products order_number_set w = Some (Inr ([], order_number_set, w))"
| "generate_orders ops (Suc n) customer_ids products order_number_set w =
     (case generate_order ops customer_ids products order_number_set w of
        None \<Rightarrow> None
      | Some (Inl e) \<Rightarrow> Some (Inl e)
      | Some (Inr (order, set1, w1)) \<Rightarrow>
          (case generate_orders ops n customer_ids products set1 w1 of
             None \<Rightarrow> None
           | Some (Inl e) \<Rightarrow> Some (Inl e)
           | Some (Inr (ords, set2, w2)) \<Rightarrow> Some (Inr (order # ords, set2, w2))))"

text \<open>The index from a customer to the products of the customer's orders.\<close>

fun index_items :: "nat \<Rightarrow> 'f order_item list \<Rightarrow> (nat \<rightharpoonup> nat list) \<Rightarrow> (nat \<rightharpoonup> nat list)" where
  "index_items customer_id [] order_products = order_products"
| "index_items customer_id (item # rest) order_products =
     (let order_products1 = (if order_products customer_id = None
                             then order_products(customer_id \<mapsto> []) else order_products)
      in index_items customer_id rest
           (order_products1(customer_id \<mapsto>
              (case order_products1 customer_id of None \<Rightarrow> [] | Some l \<Rightarrow> l) @ [oi_productId item])))"

fun index_orders :: "'f order list \<Rightarrow> (nat \<rightharpoonup> nat list) \<Rightarrow> (nat \<rightharpoonup> nat list)" where
  "index_orders [] order_products = order_products"
| "index_orders (order # rest) order_products =
     index_orders rest (index_items (o_customerId order) (o_items order) order_products)"

text \<open>
  The review loop, \<open>while len(product_reviews) < n\<close>: a pair is drawn at every round
  and kept when it is new. Nothing bounds the rounds. \<open>random.choice\<close> raises
  \<open>IndexError\<close> on an empty list of users or products.
\<close>

partial_function (option) review_loop ::
  "nat \<Rightarrow> nat list \<Rightarrow> nat list \<Rightarrow> (nat \<rightharpoonup> nat list) \<Rightarrow> review list \<Rightarrow> (nat \<times> nat) fset \<Rightarrow> 'f world
     \<Rightarrow> (error + review list \<times> (nat \<times> nat) fset \<times> 'f world) option" where
  "review_loop n user_ids product_ids order_products product_reviews product_user_pairs w =
     (if length product_reviews < n
      then
        (if user_ids = [] then Some (Inl IndexError)
         else
           (case choice user_ids w of (user_id, w1) \<Rightarrow>
              (if product_ids = [] then Some (Inl IndexError)
               else
                 (case choice product_ids w1 of (product_id, w2) \<Rightarrow>
                    (case generate_product_review product_id user_id order_products product_user_pairs w2 of
                       (None, pairs1, w3) \<Rightarrow>
                         review_loop n user_ids product_ids order_products product_reviews pairs1 w3
                     | (Some review, pairs1, w3) \<Rightarrow>
                         review_loop n user_ids product_ids order_products
                           (product_reviews @ [review]) pairs1 w3)))))
      else Some (Inr (product_reviews, product_user_pairs, w)))"

declare review_loop.simps [code]

record 'f datasets =
  d_users :: "user list"
  d_categories :: "category list"
  d_products :: "'f product list"
  d_product_categories :: "product_category list"
  d_orders :: "'f order list"
  d_product_reviews :: "review list"

definition run :: "'f float_ops \<Rightarrow> config \<Rightarrow> 'f world \<Rightarrow> (error + 'f datasets) option" where
  "run ops cfg w =
     (case generate_users (n_users cfg) {||} w of
        None \<Rightarrow> None
      | Some (users, email_set, w) \<Rightarrow>
          (let user_ids = map u_id users;
               (categories, w) = generate_categories (n_categories cfg) (n_roots cfg) w;
               category_ids = map c_id categories
           in case generate_products ops (n_products cfg) {||} w of
                None \<Rightarrow> None
              | Some (products, sku_set, w) \<Rightarrow>
                  (let product_ids = map p_id products;
                       (pairs, product_categories, w) = link_products product_ids category_ids {||} [] w
                   in case generate_orders ops (n_orders cfg) user_ids products {||} w of
                        None \<Rightarrow> None
                      | Some (Inl e) \<Rightarrow> Some (Inl e)
                      | Some (Inr (orders, order_number_set, w)) \<Rightarrow>
                          (let order_products = index_orders orders Map.empty
                           in case review_loop (n_reviews cfg) user_ids product_ids order_products
                                     [] {||} w of
                                None \<Rightarrow> None
                              | Some (Inl e) \<Rightarrow> Some (Inl e)
                              | Some (Inr (product_reviews, product_user_pairs, w)) \<Rightarrow>
                                  Some (Inr \<lparr>d_users = users, d_categories = categories,
                                             d_products = products,
                                             d_product_categories = product_categories,
                                             d_orders = orders,
                                             d_product_reviews = product_reviews\<rparr>)))))"

definition main :: "'f float_ops \<Rightarrow> 'f world \<Rightarrow> (error + 'f datasets) option" where
  "main ops w = run ops \<lparr>n_users = 10000, n_categories = 10000, n_roots = 100,
                         n_products = 10000, n_orders = 10000, n_reviews = 10000\<rparr> w"

subsection \<open>Worlds and floats for worked examples\<close>

text \<open>
  The examples below run the generators on a world whose random integers are read
  from a list (and are \<open>0\<close> past its end), whose \<open>random()\<close> is always one half, whose
  \<open>k\<close>-th text is \<open>w\<close> followed by \<open>k\<close>, and whose \<open>k\<close>-th datetime is \<open>1000 k\<close>. The three
  positions are given as integers. Floats are read as rationals, with exact
  arithmetic and rounding to the nearest decimal.
\<close>

definition tape :: "nat list \<Rightarrow> nat \<Rightarrow> nat" where
  "tape rs k = (if k < length rs then rs ! k else 0)"

definition ex_world :: "nat list \<Rightarrow> int \<Rightarrow> int \<Rightarrow> int \<Rightarrow> rat world" where
  "ex_world rs a b c =
     \<lparr>rand_ints = tape rs, rand_units = (\<lambda>k. 1 / 2), rand_pos = nat a,
      fake_strs = (\<lambda>k. ''w'' @ str_nat k), fake_times = (\<lambda>k. int k * 1000), fake_pos = nat b,
      oid_count = nat c\<rparr>"

definition ex_ops :: "rat float_ops" where
  "ex_ops = \<lparr>lit = (\<lambda>q. q), fadd = (+), fsub = (-), fmul = (*),
             round_nd = (\<lambda>x n. of_int (round (x * 10 ^ n)) / 10 ^ n),
             fmt2 = (\<lambda>x. str_int (round (x * 100)))\<rparr>"

section \<open>Properties\<close>

subsection \<open>Running the generators on the example world\<close>

lemma ex_randbelow:
  "0 \<le> a \<Longrightarrow> randbelow n (ex_world rs a b c) = (tape rs (nat a) mod n, ex_world rs (a + 1) b c)"
  by (simp add: randbelow_def ex_world_def nat_add_distrib)

lemma ex_randint:
  "0 \<le> a \<Longrightarrow> randint lo hi (ex_world rs a b c)
     = (lo + int (tape rs (nat a) mod nat (hi - lo + 1)), ex_world rs (a + 1) b c)"
  by (simp add: randint_def ex_randbelow)

lemma ex_choice:
  "0 \<le> a \<Longrightarrow> choice xs (ex_world rs a b c)
     = (xs ! nat (int (tape rs (nat a)) mod int (length xs)), ex_world rs (a + 1) b c)"
  by (simp add: choice_def ex_randbelow nat_mod_distrib)

lemma ex_uniform:
  "0 \<le> a \<Longrightarrow> uniform ex_ops x y (ex_world rs a b c) = (x + (y - x) * (1 / 2), ex_world rs (a + 1) b c)"
  by (simp add: uniform_def ex_world_def ex_ops_def nat_add_distrib)

lemma ex_fake_str:
  "0 \<le> b \<Longrightarrow> fake_str (ex_world rs a b c) = (''w'' @ str_nat (nat b), ex_world rs a (b + 1) c)"
  by (simp add: fake_str_def ex_world_def nat_add_distrib)

lemma ex_fake_date_time:
  "0 \<le> b \<Longrightarrow> fake_date_time (ex_world rs a b c) = (b * 1000, ex_world rs a (b + 1) c)"
  by (simp add: fake_date_time_def ex_world_def nat_add_distrib)

lemma ex_object_id:
  "0 \<le> c \<Longrightarrow> object_id (ex_world rs a b c) = (nat c, ex_world rs a b (c + 1))"
  by (simp add: object_id_def ex_world_def nat_add_distrib)

lemma ex_ops_simps:
  "lit ex_ops q = q" "fadd ex_ops x y = x + y" "fsub ex_ops x y = x - y" "fmul ex_ops x y = x * y"
  "round_nd ex_ops x n = of_int (round (x * 10 ^ n)) / 10 ^ n"
  by (simp_all add: ex_ops_def)

lemma fake_words_numeral:
  "fake_words (numeral k) w =
     (case fake_str w of (x, w1) \<Rightarrow> (case fake_words (pred_numeral k) w1 of (xs, w2) \<Rightarrow> (x # xs, w2)))"
  by (simp add: numeral_eq_Suc)

lemma sample_pool_numeral:
  "sample_pool pool (numeral k) w =
     (case randbelow (length pool) w of (j, w1) \<Rightarrow>
        (case sample_pool (butlast (pool[j := last pool])) (pred_numeral k) w1 of (rest, w2) \<Rightarrow>
           (pool ! j # rest, w2)))"
  by (simp add: numeral_eq_Suc)

lemmas ex_simps =
  ex_randint ex_choice ex_uniform ex_fake_str ex_fake_date_time ex_object_id ex_ops_simps
  fake_words_numeral tape_def str_int_def str_nat.simps digit_char_def Let_def

subsection \<open>The review generator and its registry\<close>

text \<open>
  C10. Called with a pair of product and user that is already in the registry,
  \<open>generate_product_review\<close> returns \<open>None\<close> and the registry and the world as they
  were; called with a new pair, it returns a review of that product by that user and
  the registry with exactly that pair added.
\<close>

theorem generate_product_review_dedupe:
  "((product_id, user_id) |\<in>| pairs \<longrightarrow>
      generate_product_review product_id user_id order_products pairs w = (None, pairs, w)) \<and>
   ((product_id, user_id) |\<notin>| pairs \<longrightarrow>
      (\<exists>r w'. generate_product_review product_id user_id order_products pairs w
                 = (Some r, finsert (product_id, user_id) pairs, w')
               \<and> r_productId r = product_id \<and> r_userId r = user_id))"
  by (simp add: generate_product_review_def Let_def split_beta)

theorem generate_product_review_dedupe_witness:
  "(1, 2) |\<in>| {|(1, 2)|} \<and> (3, 2) |\<notin>| {|(1::nat, 2::nat)|} \<and>
   generate_product_review 1 2 Map.empty {|(1, 2)|} (ex_world [] 0 0 0)
     = (None, {|(1, 2)|}, ex_world [] 0 0 0) \<and>
   fst (generate_product_review 3 2 Map.empty {|(1, 2)|} (ex_world [] 0 0 0)) \<noteq> None \<and>
   fst (snd (generate_product_review 3 2 Map.empty {|(1, 2)|} (ex_world [] 0 0 0)))
     = {|(3, 2), (1, 2)|}"
  using generate_product_review_dedupe [of 1 2 "{|(1, 2)|}" Map.empty "ex_world [] 0 0 0"]
    generate_product_review_dedupe [of 3 2 "{|(1, 2)|}" Map.empty "ex_world [] 0 0 0"]
  by auto

end
